theory Spec2Isabelle
  imports Main "HOL-Library.List_Lexorder"
begin

section \<open>Python strings\<close>

text \<open>
  A Python \<open>str\<close> is a sequence of Unicode code points. A code point is a natural
  number here (\<open>8364\<close> is the euro sign, \<open>224\<close> a-grave, \<open>233\<close> e-acute), and
  \<open>u ''abc''\<close> reads an ASCII literal as such a sequence.
\<close>

type_synonym ustr = "nat list"

definition u :: "string \<Rightarrow> ustr" where
  "u s = map of_char s"

text \<open>
  \<open>str.isspace\<close>, which \<open>str.strip\<close> and the regular expression class \<open>\s\<close> both use:
  the complete list of CPython's whitespace code points.
\<close>

definition is_space :: "nat \<Rightarrow> bool" where
  "is_space c \<longleftrightarrow>
     (9 \<le> c \<and> c \<le> 13) \<or> (28 \<le> c \<and> c \<le> 32) \<or> c = 133 \<or> c = 160 \<or> c = 5760 \<or>
     (8192 \<le> c \<and> c \<le> 8202) \<or> c = 8232 \<or> c = 8233 \<or> c = 8239 \<or> c = 8287 \<or> c = 12288"

text \<open>
  The class \<open>\d\<close> of a \<open>str\<close> pattern and the digits that \<open>int\<close> reads are the decimal
  digits of Unicode (category Nd), not the ASCII digits alone. They come in runs of ten,
  from the zero of a script to its nine. \<open>DECIMAL_ZEROS\<close> lists the zeros beyond ASCII, as
  in the Unicode 14.0 tables of CPython 3.11 (\<open>unicodedata\<close>); a later version of the
  tables adds scripts to the list.
\<close>

definition DECIMAL_ZEROS :: "nat list" where
  "DECIMAL_ZEROS =
     [1632, 1776, 1984, 2406, 2534, 2662, 2790, 2918, 3046, 3174,
      3302, 3430, 3558, 3664, 3792, 3872, 4160, 4240, 6112, 6160,
      6470, 6608, 6784, 6800, 6992, 7088, 7232, 7248, 42528, 43216,
      43264, 43472, 43504, 43600, 44016, 65296, 66720, 68912, 69734, 69872,
      69942, 70096, 70384, 70736, 70864, 71248, 71360, 71472, 71904, 72016,
      72784, 73040, 73120, 92768, 92864, 93008, 120782, 120792, 120802, 120812,
      120822, 123200, 123632, 125264, 130032]"

definition digit_zero :: "nat \<Rightarrow> nat option" where
  "digit_zero c =
     (if c < 128 then (if 48 \<le> c \<and> c \<le> 57 then Some 48 else None)
      else find (\<lambda>z. z \<le> c \<and> c \<le> z + 9) DECIMAL_ZEROS)"

definition is_digit :: "nat \<Rightarrow> bool" where
  "is_digit c \<longleftrightarrow> digit_zero c \<noteq> None"

definition digit_val :: "nat \<Rightarrow> nat" where
  "digit_val c = (case digit_zero c of None \<Rightarrow> 0 | Some z \<Rightarrow> c - z)"

text \<open>
  \<open>str.lower\<close>, character by character, on Basic Latin and the Latin-1 supplement
  (code points below 256: \<open>A\<close>..\<open>Z\<close> and the accented capitals \<open>U+00C0\<close>..\<open>U+00DE\<close>
  without the multiplication sign \<open>U+00D7\<close>). Case mappings of code points from 256 on
  are outside the alphabet of this model: they are left as they are.
\<close>

definition lower_char :: "nat \<Rightarrow> nat" where
  "lower_char c =
     (if 65 \<le> c \<and> c \<le> 90 then c + 32
      else if 192 \<le> c \<and> c \<le> 222 \<and> c \<noteq> 215 then c + 32
      else c)"

definition lower :: "ustr \<Rightarrow> ustr" where
  "lower s = map lower_char s"

definition strip :: "ustr \<Rightarrow> ustr" where
  "strip s = rev (dropWhile is_space (rev (dropWhile is_space s)))"

definition startswith :: "ustr \<Rightarrow> ustr \<Rightarrow> bool" where
  "startswith s p \<longleftrightarrow> take (length p) s = p"

text \<open>\<open>sep.join(xs)\<close> and \<open>s.split(sep)\<close> for the one-character separator \<open>"\n"\<close>.\<close>

fun join_nl :: "ustr list \<Rightarrow> ustr" where
  "join_nl [] = []"
| "join_nl [x] = x"
| "join_nl (x # y # ys) = x @ [10] @ join_nl (y # ys)"

fun split_nl :: "ustr \<Rightarrow> ustr list" where
  "split_nl [] = [[]]"
| "split_nl (c # cs) =
     (if c = 10 then [] # split_nl cs
      else (case split_nl cs of [] \<Rightarrow> [[c]] | l # ls \<Rightarrow> (c # l) # ls))"

text \<open>\<open>int(s)\<close> on a string of decimal digits, as the groups of the date patterns are.\<close>

definition int_of_digits :: "ustr \<Rightarrow> int" where
  "int_of_digits s = foldl (\<lambda>a c. 10 * a + int (digit_val c)) 0 s"

section \<open>Regular expressions as \<open>re\<close> matches them\<close>

text \<open>
  The patterns of the source use literals, the classes \<open>\d\<close>, \<open>\s\<close>, \<open>.\<close>, sets and
  ranges, bounded and unbounded repetition of a class (greedy, and lazy for \<open>.+?\<close>),
  optional groups, alternation, named groups and the anchors \<open>^\<close> and \<open>$\<close>.
  A non-capturing group \<open>(?:...)\<close> only brackets and has no node of its own.
\<close>

datatype cls = Digit | Space | Dot | OneOf "nat list" | Range nat nat

datatype regex =
    Eps
  | Lit nat
  | Cls cls
  | Rep cls nat "nat option"
  | RepLazy cls nat "nat option"
  | Seq regex regex
  | Alt regex regex
  | Opt regex
  | Group string regex
  | Bol
  | Eol

abbreviation star :: "cls \<Rightarrow> regex" where
  "star c \<equiv> Rep c 0 None"

abbreviation plus1 :: "cls \<Rightarrow> regex" where
  "plus1 c \<equiv> Rep c 1 None"

abbreviation plus1_lazy :: "cls \<Rightarrow> regex" where
  "plus1_lazy c \<equiv> RepLazy c 1 None"

abbreviation times :: "cls \<Rightarrow> nat \<Rightarrow> nat \<Rightarrow> regex" where
  "times c lo hi \<equiv> Rep c lo (Some hi)"

fun cat :: "regex list \<Rightarrow> regex" where
  "cat [] = Eps"
| "cat [r] = r"
| "cat (r # rs) = Seq r (cat rs)"

text \<open>A compiled pattern: the expression and whether \<open>re.IGNORECASE\<close> is set.\<close>

record pattern =
  regex_of :: regex
  ignorecase :: bool

text \<open>
  The characters a literal matches under \<open>re.IGNORECASE\<close>, for the literals of the
  patterns compiled with that flag: \<open>k\<close> (also the Kelvin sign \<open>U+212A\<close>), \<open>g\<close>, \<open>x\<close>,
  and the caseless euro sign, slash, percent sign, full stop and hyphen.
\<close>

definition ignorecase_set :: "nat \<Rightarrow> nat list" where
  "ignorecase_set a =
     (if a = 107 then [107, 75, 8490]
      else if a = 103 then [103, 71]
      else if a = 120 then [120, 88]
      else [a])"

definition lit_eq :: "bool \<Rightarrow> nat \<Rightarrow> nat \<Rightarrow> bool" where
  "lit_eq ic a x \<longleftrightarrow> x = a \<or> (ic \<and> x \<in> set (ignorecase_set a))"

fun in_cls :: "cls \<Rightarrow> nat \<Rightarrow> bool" where
  "in_cls Digit x = is_digit x"
| "in_cls Space x = is_space x"
| "in_cls Dot x = (x \<noteq> 10)"
| "in_cls (OneOf xs) x = (x \<in> set xs)"
| "in_cls (Range a b) x = (a \<le> x \<and> x \<le> b)"

type_synonym caps = "(string \<times> ustr) list"

text \<open>
  The matcher backtracks as \<open>re\<close> does: each construct is given the continuation \<open>k\<close>
  that matches the rest of the pattern, tries its alternatives in priority order and
  returns the first that lets \<open>k\<close> succeed. A greedy repetition tries the longest run
  first, a lazy one the shortest.
\<close>

fun rep_greedy :: "(nat \<Rightarrow> bool) \<Rightarrow> nat \<Rightarrow> nat option \<Rightarrow> (ustr \<Rightarrow> 'a option) \<Rightarrow> ustr \<Rightarrow> 'a option" where
  "rep_greedy p lo hi k [] = (if lo = 0 then k [] else None)"
| "rep_greedy p lo hi k (x # xs) =
     (if p x \<and> hi \<noteq> Some 0
      then (case rep_greedy p (lo - 1) (map_option (\<lambda>h. h - 1) hi) k xs of
              Some r \<Rightarrow> Some r
            | None \<Rightarrow> if lo = 0 then k (x # xs) else None)
      else if lo = 0 then k (x # xs) else None)"

fun rep_lazy :: "(nat \<Rightarrow> bool) \<Rightarrow> nat \<Rightarrow> nat option \<Rightarrow> (ustr \<Rightarrow> 'a option) \<Rightarrow> ustr \<Rightarrow> 'a option" where
  "rep_lazy p lo hi k [] = (if lo = 0 then k [] else None)"
| "rep_lazy p lo hi k (x # xs) =
     (case (if lo = 0 then k (x # xs) else None) of
        Some r \<Rightarrow> Some r
      | None \<Rightarrow>
          if p x \<and> hi \<noteq> Some 0
          then rep_lazy p (lo - 1) (map_option (\<lambda>h. h - 1) hi) k xs
          else None)"

text \<open>
  \<open>mt r ic n k s c\<close>: match \<open>r\<close> at the suffix \<open>s\<close> of a subject of length \<open>n\<close>, with
  the groups \<open>c\<close> captured so far. \<open>$\<close> matches at the end and before a final newline.
\<close>

primrec mt :: "regex \<Rightarrow> bool \<Rightarrow> nat \<Rightarrow> (ustr \<Rightarrow> caps \<Rightarrow> 'a option) \<Rightarrow> ustr \<Rightarrow> caps \<Rightarrow> 'a option" where
  "mt Eps ic n k s c = k s c"
| "mt (Lit a) ic n k s c =
     (case s of [] \<Rightarrow> None | x # xs \<Rightarrow> if lit_eq ic a x then k xs c else None)"
| "mt (Cls cl) ic n k s c =
     (case s of [] \<Rightarrow> None | x # xs \<Rightarrow> if in_cls cl x then k xs c else None)"
| "mt (Rep cl lo hi) ic n k s c = rep_greedy (in_cls cl) lo hi (\<lambda>s'. k s' c) s"
| "mt (RepLazy cl lo hi) ic n k s c = rep_lazy (in_cls cl) lo hi (\<lambda>s'. k s' c) s"
| "mt (Seq a b) ic n k s c = mt a ic n (mt b ic n k) s c"
| "mt (Alt a b) ic n k s c =
     (case mt a ic n k s c of Some r \<Rightarrow> Some r | None \<Rightarrow> mt b ic n k s c)"
| "mt (Opt a) ic n k s c =
     (case mt a ic n k s c of Some r \<Rightarrow> Some r | None \<Rightarrow> k s c)"
| "mt (Group g a) ic n k s c =
     mt a ic n (\<lambda>s' c'. k s' ((g, take (length s - length s') s) # c')) s c"
| "mt Bol ic n k s c = (if length s = n then k s c else None)"
| "mt Eol ic n k s c = (if s = [] \<or> s = [10] then k s c else None)"

text \<open>
  A match object: the text after the match and the named groups. \<open>pattern.match\<close>
  matches at the start of the subject; \<open>pattern.search\<close> returns the leftmost match.
\<close>

type_synonym match_obj = "ustr \<times> caps"

definition match_at :: "pattern \<Rightarrow> nat \<Rightarrow> ustr \<Rightarrow> match_obj option" where
  "match_at p n s = mt (regex_of p) (ignorecase p) n (\<lambda>s' c. Some (s', c)) s []"

definition re_match :: "pattern \<Rightarrow> ustr \<Rightarrow> match_obj option" where
  "re_match p s = match_at p (length s) s"

fun search_from :: "pattern \<Rightarrow> nat \<Rightarrow> ustr \<Rightarrow> match_obj option" where
  "search_from p n [] = match_at p n []"
| "search_from p n (x # xs) =
     (case match_at p n (x # xs) of Some m \<Rightarrow> Some m | None \<Rightarrow> search_from p n xs)"

definition re_search :: "pattern \<Rightarrow> ustr \<Rightarrow> match_obj option" where
  "re_search p s = search_from p (length s) s"

text \<open>
  \<open>m.group(name)\<close>. Every named group of the patterns below stands outside any
  optional part or alternative, so it takes part in every match; the default is never
  reached.
\<close>

definition group :: "match_obj \<Rightarrow> string \<Rightarrow> ustr" where
  "group m g = (case map_of (snd m) g of Some v \<Rightarrow> v | None \<Rightarrow> [])"

text \<open>
  \<open>pattern.sub(repl, s)\<close>: the non-overlapping matches from left to right are replaced;
  an empty match puts \<open>repl\<close> in and moves one character on.
\<close>

fun sub_from :: "pattern \<Rightarrow> ustr \<Rightarrow> nat \<Rightarrow> ustr \<Rightarrow> ustr" where
  "sub_from p repl n s =
     (case match_at p n s of
        None \<Rightarrow> (case s of [] \<Rightarrow> [] | x # xs \<Rightarrow> x # sub_from p repl n xs)
      | Some (rest, c) \<Rightarrow>
          if length rest < length s then repl @ sub_from p repl n rest
          else (case s of [] \<Rightarrow> repl | x # xs \<Rightarrow> repl @ x # sub_from p repl n xs))"

declare sub_from.simps [simp del]

definition re_sub :: "pattern \<Rightarrow> ustr \<Rightarrow> ustr \<Rightarrow> ustr" where
  "re_sub p repl s = sub_from p repl (length s) s"

section \<open>The invoice parser (\<open>invoice_parser.py\<close>)\<close>

definition ch :: "char \<Rightarrow> nat" where
  "ch c = of_char c"

text \<open>The euro sign, a-grave and e-acute of the source's literals.\<close>

definition euro :: nat where
  "euro = 8364"

definition a_grave :: nat where
  "a_grave = 224"

definition e_acute :: nat where
  "e_acute = 233"

text \<open>
  \<^verbatim>\<open>^\s*(?P<weight>\d+(?:[.,]\d+)?)\s*kg\s*x\s*(?P<price>\d+(?:[.,]\d+)?)\s*E\s*/\s*kg\s*$\<close>
  with \<open>re.IGNORECASE\<close> (\<open>E\<close> stands for the euro sign).
\<close>

definition PRICE_KG_RE :: pattern where
  "PRICE_KG_RE = \<lparr>regex_of = cat
     [Bol, star Space,
      Group ''weight'' (cat [plus1 Digit, Opt (cat [Cls (OneOf (u ''.,'')), plus1 Digit])]),
      star Space, Lit (ch CHR ''k''), Lit (ch CHR ''g''), star Space, Lit (ch CHR ''x''), star Space,
      Group ''price'' (cat [plus1 Digit, Opt (cat [Cls (OneOf (u ''.,'')), plus1 Digit])]),
      star Space, Lit euro, star Space, Lit (ch CHR ''/''), star Space,
      Lit (ch CHR ''k''), Lit (ch CHR ''g''), star Space, Eol],
     ignorecase = True\<rparr>"

text \<open>
  \<^verbatim>\<open>^\s*(?:(?:\d{1,2}(?:[.,]\d)?|[0-9]{1,2})\s*%|\d{1,2}\.\d{1,2}\s*%)?\s*(?P<name>.+?)\s+(?P<qty>\d+)\s*x\s*(?P<unit>\d+(?:[.,]\d{1,2})?)\s+(?P<amount>-?\d+(?:[.,]\d{1,2})?)\s*$\<close>
  with \<open>re.IGNORECASE\<close>.
\<close>

definition PRODUCT_RE :: pattern where
  "PRODUCT_RE = \<lparr>regex_of = cat
     [Bol, star Space,
      Opt (Alt
        (cat [Alt (cat [times Digit 1 2, Opt (cat [Cls (OneOf (u ''.,'')), Cls Digit])])
                  (times (Range (ch CHR ''0'') (ch CHR ''9'')) 1 2),
              star Space, Lit (ch CHR ''%'')])
        (cat [times Digit 1 2, Lit (ch CHR ''.''), times Digit 1 2, star Space, Lit (ch CHR ''%'')])),
      star Space,
      Group ''name'' (plus1_lazy Dot),
      plus1 Space,
      Group ''qty'' (plus1 Digit),
      star Space, Lit (ch CHR ''x''), star Space,
      Group ''unit'' (cat [plus1 Digit, Opt (cat [Cls (OneOf (u ''.,'')), times Digit 1 2])]),
      plus1 Space,
      Group ''amount''
        (cat [Opt (Lit (ch CHR ''-'')), plus1 Digit, Opt (cat [Cls (OneOf (u ''.,'')), times Digit 1 2])]),
      star Space, Eol],
     ignorecase = True\<rparr>"

definition SKIP_PREFIXES :: "ustr list" where
  "SKIP_PREFIXES =
     [u ''remise imm'' @ [e_acute] @ u ''diate'',
      u ''total'',
      u ''taux tva'',
      u ''d'' @ [e_acute] @ u ''tails de vos avantages'',
      u ''avantages -10%'',
      u ''ma carte'',
      [euro] @ u '' cr'' @ [e_acute] @ u ''dit'' @ [e_acute] @ u ''s'',
      u ''vignettes'',
      u ''pay'' @ [e_acute] @ u '' par'',
      u ''tva produit'',
      u ''carte bancaire'']"

text \<open>
  \<^verbatim>\<open>(?P<d>\d{2})/(?P<m>\d{2})/(?P<y>\d{4})\s*(?:A\s*)?(?P<h>\d{1,2})[h:](?P<min>\d{2})\<close>
  (\<open>A\<close> stands for a-grave) and
  \<^verbatim>\<open>(?P<d>\d{2})[.](?P<m>\d{2})[.](?P<y>\d{2,4})\s+(?P<h>\d{1,2})[:](?P<min>\d{2})\<close>,
  both compiled without flags: the two elements of the list \<open>DATE_RES\<close>, in its order.
\<close>

definition DATE_RE_SLASH :: pattern where
  "DATE_RE_SLASH = \<lparr>regex_of = cat
     [Group ''d'' (times Digit 2 2), Lit (ch CHR ''/''),
      Group ''m'' (times Digit 2 2), Lit (ch CHR ''/''),
      Group ''y'' (times Digit 4 4), star Space,
      Opt (cat [Lit a_grave, star Space]),
      Group ''h'' (times Digit 1 2), Cls (OneOf (u ''h:'')),
      Group ''min'' (times Digit 2 2)],
     ignorecase = False\<rparr>"

definition DATE_RE_DOT :: pattern where
  "DATE_RE_DOT = \<lparr>regex_of = cat
     [Group ''d'' (times Digit 2 2), Cls (OneOf (u ''.'')),
      Group ''m'' (times Digit 2 2), Cls (OneOf (u ''.'')),
      Group ''y'' (times Digit 2 4), plus1 Space,
      Group ''h'' (times Digit 1 2), Cls (OneOf (u '':'')),
      Group ''min'' (times Digit 2 2)],
     ignorecase = False\<rparr>"

definition DATE_RES :: "pattern list" where
  "DATE_RES = [DATE_RE_SLASH, DATE_RE_DOT]"

definition normalize_decimal :: "ustr \<Rightarrow> ustr" where
  "normalize_decimal s = map (\<lambda>c. if c = ch CHR '','' then ch CHR ''.'' else c) s"

subsection \<open>\<open>datetime\<close>\<close>

text \<open>
  The exceptions of the two programs. \<open>InvalidDate\<close> is the \<open>ValueError\<close> that the
  constructor \<open>datetime(...)\<close> raises; \<open>SchemaMismatch\<close> the \<open>ValueError\<close>,
  \<open>MissingColumn\<close> the \<open>KeyError\<close> and \<open>FileNotFound\<close> the \<open>FileNotFoundError\<close> that
  \<open>merge_csv_folder\<close> raises; \<open>SortTypeError\<close> the \<open>TypeError\<close> of a sort that
  compares \<open>None\<close>.
\<close>

datatype error = InvalidDate | SchemaMismatch | MissingColumn | FileNotFound | SortTypeError

record datetime =
  year :: int
  month :: int
  day :: int
  hour :: int
  minute :: int

definition is_leap :: "int \<Rightarrow> bool" where
  "is_leap y \<longleftrightarrow> y mod 4 = 0 \<and> (y mod 100 \<noteq> 0 \<or> y mod 400 = 0)"

definition days_in_month :: "int \<Rightarrow> int \<Rightarrow> int" where
  "days_in_month y m =
     (if m = 2 then (if is_leap y then 29 else 28)
      else if m = 4 \<or> m = 6 \<or> m = 9 \<or> m = 11 then 30
      else 31)"

text \<open>\<open>datetime(y, mth, d, h, minute)\<close>: a \<open>ValueError\<close> when a field is out of range.\<close>

definition datetime_new :: "int \<Rightarrow> int \<Rightarrow> int \<Rightarrow> int \<Rightarrow> int \<Rightarrow> error + datetime" where
  "datetime_new y mth d h mi =
     (if y < 1 \<or> 9999 < y then Inl InvalidDate
      else if mth < 1 \<or> 12 < mth then Inl InvalidDate
      else if d < 1 \<or> days_in_month y mth < d then Inl InvalidDate
      else if h < 0 \<or> 23 < h then Inl InvalidDate
      else if mi < 0 \<or> 59 < mi then Inl InvalidDate
      else Inr \<lparr>year = y, month = mth, day = d, hour = h, minute = mi\<rparr>)"

definition digit_char :: "int \<Rightarrow> nat" where
  "digit_char n = 48 + nat (n mod 10)"

text \<open>
  \<open>dt.strftime("%d/%m/%Y")\<close>: day and month on two digits, the year on four (a year
  below 1000 is zero-padded here; the C library of some platforms does not pad it).
\<close>

definition strftime_dmY :: "datetime \<Rightarrow> ustr" where
  "strftime_dmY dt =
     [digit_char (day dt div 10), digit_char (day dt), ch CHR ''/'',
      digit_char (month dt div 10), digit_char (month dt), ch CHR ''/'',
      digit_char (year dt div 1000), digit_char (year dt div 100),
      digit_char (year dt div 10), digit_char (year dt)]"

subsection \<open>\<open>find_date\<close>\<close>

text \<open>
  The body of \<open>if m:\<close> (lines 60 to 65): the fields of the match, a year below 100
  promoted by 2000, the \<open>datetime\<close> built (or its \<open>ValueError\<close>) and formatted.
\<close>

definition date_of_match :: "match_obj \<Rightarrow> error + ustr option" where
  "date_of_match m =
     (let d = int_of_digits (group m ''d'');
          mth = int_of_digits (group m ''m'');
          y = int_of_digits (group m ''y'');
          y = (if y < 100 then y + 2000 else y);
          h = int_of_digits (group m ''h'');
          mi = int_of_digits (group m ''min'')
      in case datetime_new y mth d h mi of
           Inl e \<Rightarrow> Inl e
         | Inr dt \<Rightarrow> Inr (Some (strftime_dmY dt)))"

text \<open>
  The loop \<open>for rx in DATE_RES\<close>: the first pattern with a match decides, by returning
  the formatted date or by raising; \<open>None\<close> when no pattern matches.
\<close>

fun find_date_loop :: "pattern list \<Rightarrow> ustr \<Rightarrow> error + ustr option" where
  "find_date_loop [] all_text = Inr None"
| "find_date_loop (rx # rxs) all_text =
     (case re_search rx all_text of
        Some m \<Rightarrow> date_of_match m
      | None \<Rightarrow> find_date_loop rxs all_text)"

definition find_date :: "ustr \<Rightarrow> error + ustr option" where
  "find_date all_text = find_date_loop DATE_RES all_text"

subsection \<open>\<open>parse_lines_to_rows\<close>\<close>

text \<open>A row is the tuple \<open>(name, type, price-kg, QTE x P.U, amount, date)\<close>.\<close>

record product_row =
  r_name :: ustr
  r_type :: ustr
  r_pricekg :: ustr
  r_qte_pu :: ustr
  r_amount :: ustr
  r_date :: ustr

text \<open>
  The two substitutions that clean a name:
  \<^verbatim>\<open>^\s*\d{1,2}(?:[.,]\d{1,2})?\s*%\s*\<close> and \<^verbatim>\<open>\s{2,}\<close>, without flags.
\<close>

definition PERCENT_PREFIX_RE :: pattern where
  "PERCENT_PREFIX_RE = \<lparr>regex_of = cat
     [Bol, star Space, times Digit 1 2, Opt (cat [Cls (OneOf (u ''.,'')), times Digit 1 2]),
      star Space, Lit (ch CHR ''%''), star Space],
     ignorecase = False\<rparr>"

definition SPACES_RE :: pattern where
  "SPACES_RE = \<lparr>regex_of = Rep Space 2 None, ignorecase = False\<rparr>"

text \<open>
  The state of the loop is the pair of \<open>out\<close> and \<open>pending_pricekg\<close>; the body of the
  loop takes it to the state after one line (\<open>continue\<close> returns it as it is then).
  \<open>pending_pricekg.pop(0) if pending_pricekg else ""\<close> is the case on the queue.
\<close>

definition loop_body :: "ustr option \<Rightarrow> product_row list \<times> ustr list \<Rightarrow> ustr \<Rightarrow> product_row list \<times> ustr list" where
  "loop_body invoice_date st raw =
     (let out = fst st; pending_pricekg = snd st; line = strip raw in
      if line = [] then (out, pending_pricekg)
      else case re_match PRICE_KG_RE line of
        Some mkg \<Rightarrow>
          (let weight = normalize_decimal (group mkg ''weight'');
               price = normalize_decimal (group mkg ''price'');
               pricekg_str = weight @ u ''kg x '' @ price @ [euro] @ u ''/kg''
           in (out, pending_pricekg @ [pricekg_str]))
      | None \<Rightarrow>
          (let line_lower = lower line in
           if list_ex (\<lambda>prefix. startswith line_lower prefix) SKIP_PREFIXES
           then (out, pending_pricekg)
           else case re_match PRODUCT_RE line of
             Some mp \<Rightarrow>
               (let name = strip (group mp ''name'');
                    name = strip (re_sub PERCENT_PREFIX_RE [] name);
                    name = re_sub SPACES_RE (u '' '') name;
                    qty = group mp ''qty'';
                    unit = normalize_decimal (group mp ''unit'');
                    amount = normalize_decimal (group mp ''amount'');
                    qte_pu = qty @ u '' x '' @ unit;
                    pricekg = (case pending_pricekg of [] \<Rightarrow> [] | p # ps \<Rightarrow> p);
                    pending_pricekg = (case pending_pricekg of [] \<Rightarrow> [] | p # ps \<Rightarrow> ps)
                in if startswith (lower name) (u ''remise'') then (out, pending_pricekg)
                   else (out @ [\<lparr>r_name = name, r_type = [], r_pricekg = pricekg,
                                  r_qte_pu = qte_pu, r_amount = amount,
                                  r_date = (case invoice_date of None \<Rightarrow> [] | Some d \<Rightarrow> d)\<rparr>],
                         pending_pricekg))
           | None \<Rightarrow> (out, pending_pricekg)))"

definition parse_lines_to_rows :: "ustr list \<Rightarrow> ustr option \<Rightarrow> product_row list" where
  "parse_lines_to_rows lines invoice_date = fst (foldl (loop_body invoice_date) ([], []) lines)"

subsection \<open>\<open>extract_pdf_to_rows\<close> and \<open>extract_invoices_to_csv\<close>\<close>

text \<open>
  The PDF decoder is an external library: a document is given by \<open>page_texts\<close>, the
  text of each of its pages (the empty string for a page whose extraction fails or
  gives nothing). The exception of \<open>find_date\<close> is not caught here.
\<close>

definition extract_pdf_to_rows :: "ustr list \<Rightarrow> error + product_row list" where
  "extract_pdf_to_rows page_texts =
     (let all_text = join_nl page_texts in
      case find_date all_text of
        Inl e \<Rightarrow> Inl e
      | Inr inv_date \<Rightarrow> (let lines = split_nl all_text in Inr (parse_lines_to_rows lines inv_date)))"

text \<open>
  The rows \<open>extract_invoices_to_csv\<close> writes under the header, for the documents in
  the sorted order of their paths: \<open>try: rows.extend(extract_pdf_to_rows(p))\<close>,
  \<open>except Exception\<close>: a warning is printed and the document adds nothing.
\<close>

fun extract_invoices_rows :: "ustr list list \<Rightarrow> product_row list" where
  "extract_invoices_rows [] = []"
| "extract_invoices_rows (p # ps) =
     (case extract_pdf_to_rows p of
        Inl e \<Rightarrow> extract_invoices_rows ps
      | Inr rows \<Rightarrow> rows @ extract_invoices_rows ps)"

section \<open>The merge utility (\<open>merge_csv.py\<close>)\<close>

text \<open>
  A cell is a string or Python's \<open>None\<close> (the value \<open>csv.DictReader\<close> gives a column
  that a short row lacks). A file as \<open>_read_csv_dicts\<close> returns it: the header
  (\<open>reader.fieldnames or []\<close>) and the rows as dictionaries.
\<close>

type_synonym cell = "ustr option"

record csv_file =
  header :: "ustr list"
  rows_dicts :: "(ustr \<rightharpoonup> cell) list"

text \<open>\<open>[rd.get(col, "") for col in first_header]\<close>\<close>

definition reorder :: "ustr list \<Rightarrow> (ustr \<rightharpoonup> cell) \<Rightarrow> cell list" where
  "reorder first_header rd =
     map (\<lambda>col. case rd col of None \<Rightarrow> Some [] | Some v \<Rightarrow> v) first_header"

text \<open>
  The loop \<open>for p in paths\<close> with its state \<open>first_header\<close> and \<open>merged_rows\<close> (the
  two counters are never read and are left out).
\<close>

fun merge_loop :: "csv_file list \<Rightarrow> ustr list \<Rightarrow> cell list list \<Rightarrow> error + ustr list \<times> cell list list" where
  "merge_loop [] first_header merged_rows = Inr (first_header, merged_rows)"
| "merge_loop (p # paths) first_header merged_rows =
     (if header p = [] then merge_loop paths first_header merged_rows
      else if first_header = []
      then merge_loop paths (header p) (merged_rows @ map (reorder (header p)) (rows_dicts p))
      else if set (header p) \<noteq> set first_header then Inl SchemaMismatch
      else merge_loop paths first_header (merged_rows @ map (reorder first_header) (rows_dicts p)))"

text \<open>The deduplication keeps the first occurrence of each row.\<close>

fun dedupe_rows :: "cell list list \<Rightarrow> cell list list \<Rightarrow> cell list list" where
  "dedupe_rows seen [] = []"
| "dedupe_rows seen (r # rs) =
     (if r \<in> set seen then dedupe_rows seen rs else r # dedupe_rows (r # seen) rs)"

text \<open>
  \<open>merged_rows.sort(key=lambda r: r[idx])\<close> with \<open>idx = first_header.index(sort_by)\<close>:
  a stable sort on strings in code point order. Comparing \<open>None\<close> raises \<open>TypeError\<close>,
  and a sort of two rows or more compares every key. Every merged row is as long as
  \<open>first_header\<close> and \<open>idx\<close> is the place of a column of it, so \<open>r ! idx\<close> is in range.
\<close>

fun index_of :: "ustr list \<Rightarrow> ustr \<Rightarrow> nat" where
  "index_of [] x = 0"
| "index_of (y # ys) x = (if y = x then 0 else Suc (index_of ys x))"

definition sort_rows :: "nat \<Rightarrow> cell list list \<Rightarrow> error + cell list list" where
  "sort_rows idx merged_rows =
     (if 2 \<le> length merged_rows \<and> list_ex (\<lambda>r. r ! idx = None) merged_rows
      then Inl SortTypeError
      else Inr (sort_key (\<lambda>r. case r ! idx of None \<Rightarrow> [] | Some s \<Rightarrow> s) merged_rows))"

text \<open>
  \<open>merge_csv_folder\<close>. \<open>folder\<close> is \<open>None\<close> when \<open>folder_path\<close> is not a directory, and
  otherwise the files that match the pattern, in the sorted order of their paths;
  \<open>sort_by\<close> is \<open>None\<close> or a string (\<open>if sort_by:\<close> is false for both \<open>None\<close> and the
  empty string). \<open>out\<close> is the content of the file \<open>output_csv\<close>
  before the call (\<open>None\<close>: no such file), and the second component of the result its
  content after the call: the one write of the function comes after every \<open>raise\<close>.
\<close>

type_synonym table = "ustr list \<times> cell list list"

definition merge_csv_folder ::
  "csv_file list option \<Rightarrow> bool \<Rightarrow> ustr option \<Rightarrow> table option \<Rightarrow> (error + unit) \<times> table option" where
  "merge_csv_folder folder dedupe sort_by out =
     (case folder of
        None \<Rightarrow> (Inl FileNotFound, out)
      | Some paths \<Rightarrow>
          if paths = [] then (Inl FileNotFound, out)
          else
            (case merge_loop paths [] [] of
               Inl e \<Rightarrow> (Inl e, out)
             | Inr (first_header, merged_rows) \<Rightarrow>
                 (let merged_rows = (if dedupe then dedupe_rows [] merged_rows else merged_rows) in
                  case sort_by of
                    None \<Rightarrow> (Inr (), Some (first_header, merged_rows))
                  | Some col \<Rightarrow>
                      if col = [] then (Inr (), Some (first_header, merged_rows))
                      else if col \<notin> set first_header then (Inl MissingColumn, out)
                      else
                        (case sort_rows (index_of first_header col) merged_rows of
                           Inl e \<Rightarrow> (Inl e, out)
                         | Inr sorted_rows \<Rightarrow> (Inr (), Some (first_header, sorted_rows))))))"

section \<open>The line classifier of the specification\<close>

text \<open>
  The specification describes the body of the loop as a classification of the line in
  a fixed precedence (blank, weight-price, noise, product, unrecognized) followed by
  the effect of the class on the records and on the queue of pending weight-prices.
  \<open>classify\<close> and \<open>apply_class\<close> follow that description; \<open>loop_body_classify\<close> below
  proves that \<open>loop_body\<close>, which follows the source, is their composition.
\<close>

datatype line_class = SkippedBlank | WeightPrice ustr | Noise | Product ustr ustr ustr | Unrecognized

definition pricekg_display :: "match_obj \<Rightarrow> ustr" where
  "pricekg_display mkg =
     normalize_decimal (group mkg ''weight'') @ u ''kg x '' @
     normalize_decimal (group mkg ''price'') @ [euro] @ u ''/kg''"

definition clean_name :: "ustr \<Rightarrow> ustr" where
  "clean_name s = re_sub SPACES_RE (u '' '') (strip (re_sub PERCENT_PREFIX_RE [] (strip s)))"

definition has_noise_prefix :: "ustr \<Rightarrow> bool" where
  "has_noise_prefix line = list_ex (\<lambda>prefix. startswith (lower line) prefix) SKIP_PREFIXES"

definition classify :: "ustr \<Rightarrow> line_class" where
  "classify raw =
     (let line = strip raw in
      if line = [] then SkippedBlank
      else case re_match PRICE_KG_RE line of
        Some mkg \<Rightarrow> WeightPrice (pricekg_display mkg)
      | None \<Rightarrow>
          if has_noise_prefix line then Noise
          else
            (case re_match PRODUCT_RE line of
               Some mp \<Rightarrow>
                 Product (clean_name (group mp ''name''))
                   (group mp ''qty'' @ u '' x '' @ normalize_decimal (group mp ''unit''))
                   (normalize_decimal (group mp ''amount''))
             | None \<Rightarrow> Unrecognized))"

definition is_product :: "line_class \<Rightarrow> bool" where
  "is_product c = (case c of Product n q a \<Rightarrow> True | _ \<Rightarrow> False)"

definition is_remise :: "ustr \<Rightarrow> bool" where
  "is_remise n = startswith (lower n) (u ''remise'')"

definition mk_row :: "ustr \<Rightarrow> ustr \<Rightarrow> ustr \<Rightarrow> ustr \<Rightarrow> ustr option \<Rightarrow> product_row" where
  "mk_row n pk q a d =
     \<lparr>r_name = n, r_type = [], r_pricekg = pk, r_qte_pu = q, r_amount = a,
      r_date = (case d of None \<Rightarrow> [] | Some x \<Rightarrow> x)\<rparr>"

text \<open>The value a product line is given: the front of the queue, or the empty string.\<close>

definition front :: "ustr list \<Rightarrow> ustr" where
  "front q = (case q of [] \<Rightarrow> [] | p # ps \<Rightarrow> p)"

definition apply_class :: "ustr option \<Rightarrow> product_row list \<times> ustr list \<Rightarrow> line_class \<Rightarrow> product_row list \<times> ustr list" where
  "apply_class d st c =
     (case c of
        SkippedBlank \<Rightarrow> st
      | WeightPrice w \<Rightarrow> (fst st, snd st @ [w])
      | Noise \<Rightarrow> st
      | Product n q a \<Rightarrow>
          (if is_remise n then fst st else fst st @ [mk_row n (front (snd st)) q a d], tl (snd st))
      | Unrecognized \<Rightarrow> st)"

text \<open>The display strings that the weight-price lines of \<open>ls\<close> enqueue, in order.\<close>

definition enqueued :: "ustr list \<Rightarrow> ustr list" where
  "enqueued ls = concat (map (\<lambda>l. case classify l of WeightPrice w \<Rightarrow> [w] | _ \<Rightarrow> []) ls)"

section \<open>Vocabulary for the claims on the merge utility\<close>

text \<open>
  The files that have a header, the header of the first of them, and whether a later
  one has another set of columns.
\<close>

definition with_header :: "csv_file list \<Rightarrow> csv_file list" where
  "with_header files = filter (\<lambda>p. header p \<noteq> []) files"

definition first_header_of :: "csv_file list \<Rightarrow> ustr list" where
  "first_header_of files = (case with_header files of [] \<Rightarrow> [] | f # fs \<Rightarrow> header f)"

definition columns_mismatch :: "csv_file list \<Rightarrow> bool" where
  "columns_mismatch files =
     (case with_header files of
        [] \<Rightarrow> False
      | f # fs \<Rightarrow> list_ex (\<lambda>g. set (header g) \<noteq> set (header f)) fs)"

section \<open>Evaluation and lemmas on the loop\<close>

lemmas run_defs =
  re_match_def match_at_def re_search_def re_sub_def sub_from.simps
  PRICE_KG_RE_def PRODUCT_RE_def DATE_RES_def DATE_RE_SLASH_def DATE_RE_DOT_def PERCENT_PREFIX_RE_def SPACES_RE_def SKIP_PREFIXES_def
  u_def ch_def euro_def a_grave_def e_acute_def lit_eq_def ignorecase_set_def is_digit_def
  digit_zero_def digit_val_def DECIMAL_ZEROS_def
  is_space_def lower_def lower_char_def strip_def startswith_def group_def normalize_decimal_def
  int_of_digits_def loop_body_def parse_lines_to_rows_def find_date_def date_of_match_def
  datetime_new_def days_in_month_def is_leap_def strftime_dmY_def digit_char_def
  extract_pdf_to_rows_def

lemmas class_defs =
  classify_def pricekg_display_def clean_name_def has_noise_prefix_def is_remise_def
  mk_row_def front_def is_product_def enqueued_def

lemma loop_body_classify: "loop_body d st raw = apply_class d st (classify raw)"
  by (cases st; cases "snd st")
     (simp_all add: loop_body_def classify_def apply_class_def Let_def pricekg_display_def
        clean_name_def has_noise_prefix_def is_remise_def mk_row_def front_def
        split: option.splits)

lemma foldl_body_out_inv:
  assumes "\<forall>r\<in>set (fst st). P r"
    and "\<And>n pk q a. \<not> is_remise n \<Longrightarrow> P (mk_row n pk q a d)"
  shows "\<forall>r\<in>set (fst (foldl (loop_body d) st ls)). P r"
  using assms(1)
proof (induction ls arbitrary: st)
  case Nil
  then show ?case by simp
next
  case (Cons l ls)
  have "\<forall>r\<in>set (fst (loop_body d st l)). P r"
    using Cons.prems assms(2)
    by (cases "classify l") (auto simp: loop_body_classify apply_class_def)
  then show ?case using Cons.IH by simp
qed

lemma foldl_no_product:
  "\<forall>y\<in>set ys. \<not> is_product (classify y) \<Longrightarrow>
   foldl (loop_body d) (out, q) ys = (out, q @ enqueued ys)"
proof (induction ys arbitrary: q)
  case Nil
  then show ?case by (simp add: enqueued_def)
next
  case (Cons y ys)
  have step: "loop_body d (out, q) y = (out, q @ enqueued [y])"
    using Cons.prems
    by (cases "classify y") (simp_all add: loop_body_classify apply_class_def enqueued_def is_product_def)
  have "enqueued (y # ys) = enqueued [y] @ enqueued ys"
    by (simp add: enqueued_def)
  then show ?case using Cons step by simp
qed

lemma product_step:
  "classify P = Product n qa a \<Longrightarrow>
   loop_body d (out, q) P = (if is_remise n then out else out @ [mk_row n (front q) qa a d], tl q)"
  by (simp add: loop_body_classify apply_class_def)

section \<open>Lemmas on the date and on the documents\<close>

lemma find_date_cases:
  "find_date t =
     (case re_search DATE_RE_SLASH t of
        Some m \<Rightarrow> date_of_match m
      | None \<Rightarrow> (case re_search DATE_RE_DOT t of Some m \<Rightarrow> date_of_match m | None \<Rightarrow> Inr None))"
  by (simp add: find_date_def DATE_RES_def split: option.splits)

lemma find_date_loop_none:
  "\<forall>rx\<in>set rxs. re_search rx t = None \<Longrightarrow> find_date_loop rxs t = Inr None"
  by (induction rxs) simp_all

lemma date_of_match_error: "date_of_match m = Inl e \<Longrightarrow> e = InvalidDate"
  by (auto simp: date_of_match_def datetime_new_def Let_def split: if_splits sum.splits)

lemma rows_without_date:
  "\<forall>r\<in>set (parse_lines_to_rows ls None). r_date r = []"
  unfolding parse_lines_to_rows_def
  by (rule foldl_body_out_inv) (simp_all add: mk_row_def)

lemma extract_invoices_rows_append:
  "extract_invoices_rows (xs @ ys) = extract_invoices_rows xs @ extract_invoices_rows ys"
  by (induction xs) (simp_all split: sum.splits)

lemma search_from_skip:
  "\<forall>i<length pre. match_at p n (drop i (pre @ s)) = None \<Longrightarrow>
   search_from p n (pre @ s) = search_from p n s"
proof (induction pre)
  case Nil
  then show ?case by simp
next
  case (Cons x pre)
  have "match_at p n (x # pre @ s) = None"
    using Cons.prems by force
  moreover have "\<forall>i<length pre. match_at p n (drop i (pre @ s)) = None"
    using Cons.prems by force
  ultimately show ?case using Cons.IH by simp
qed

lemma rep_greedy_done: "rep_greedy p 0 (Some 0) k s = k s"
  by (cases s) simp_all

lemma dot_match_here:
  "match_at DATE_RE_DOT n (u ''12.05.24 14:32'' @ post) =
     Some (post, [(''min'', u ''32''), (''h'', u ''14''), (''y'', u ''24''), (''m'', u ''05''), (''d'', u ''12'')])"
  by (simp add: run_defs rep_greedy_done)

section \<open>The claims on the invoice parser\<close>

text \<open>
  C1 (amended). For the two lines \<open>"0.350 kg x 12,50 E/kg"\<close> (\<open>E\<close> the euro sign) and
  \<open>"5% CHISTORRA REFLETS 1 x 4.70 4.70"\<close> and any date, \<open>parse_lines_to_rows\<close> returns
  exactly one row, with the name \<open>"CHISTORRA REFLETS"\<close>, the quantity and unit price
  \<open>"1 x 4.70"\<close>, the amount \<open>"4.70"\<close> and the weight-price \<open>"0.350kg x 12.50E/kg"\<close>: the
  comma becomes a full stop and the digits of the weight are kept as they are written.
\<close>

theorem parse_chistorra:
  "parse_lines_to_rows
     [u ''0.350 kg x 12,50 '' @ [euro] @ u ''/kg'', u ''5% CHISTORRA REFLETS 1 x 4.70 4.70''] d =
   [\<lparr>r_name = u ''CHISTORRA REFLETS'', r_type = [],
     r_pricekg = u ''0.350kg x 12.50'' @ [euro] @ u ''/kg'',
     r_qte_pu = u ''1 x 4.70'', r_amount = u ''4.70'',
     r_date = (case d of None \<Rightarrow> [] | Some x \<Rightarrow> x)\<rparr>]"
  by (simp add: run_defs)

text \<open>
  C1 as stated fails: the weight-price of the row is not \<open>"0.35kg x 12.50E/kg"\<close>.
\<close>

theorem parse_chistorra_not_trimmed:
  "map r_pricekg (parse_lines_to_rows
     [u ''0.350 kg x 12,50 '' @ [euro] @ u ''/kg'', u ''5% CHISTORRA REFLETS 1 x 4.70 4.70''] None)
   \<noteq> [u ''0.35kg x 12.50'' @ [euro] @ u ''/kg'']"
  by (simp add: run_defs)

text \<open>
  C7. The body of the loop is the effect of the class of the line, and the class is
  decided by the tests in the order blank, weight-price, noise prefix, product: each
  class is reached exactly when the earlier tests fail and its own succeeds, so every
  line is in exactly one class. In particular a line that matches the weight-price
  pattern only enqueues (no record, whatever the product pattern says of it), and a
  line with a noise prefix adds no record even where the product pattern matches it.
\<close>

theorem classification_precedence:
  "loop_body d st raw = apply_class d st (classify raw)
   \<and> (classify raw = SkippedBlank \<longleftrightarrow> strip raw = [])
   \<and> ((\<exists>w. classify raw = WeightPrice w) \<longleftrightarrow>
        strip raw \<noteq> [] \<and> re_match PRICE_KG_RE (strip raw) \<noteq> None)
   \<and> (classify raw = Noise \<longleftrightarrow>
        strip raw \<noteq> [] \<and> re_match PRICE_KG_RE (strip raw) = None \<and> has_noise_prefix (strip raw))
   \<and> ((\<exists>n q a. classify raw = Product n q a) \<longleftrightarrow>
        strip raw \<noteq> [] \<and> re_match PRICE_KG_RE (strip raw) = None \<and> \<not> has_noise_prefix (strip raw)
        \<and> re_match PRODUCT_RE (strip raw) \<noteq> None)
   \<and> (classify raw = Unrecognized \<longleftrightarrow>
        strip raw \<noteq> [] \<and> re_match PRICE_KG_RE (strip raw) = None \<and> \<not> has_noise_prefix (strip raw)
        \<and> re_match PRODUCT_RE (strip raw) = None)
   \<and> (strip raw \<noteq> [] \<and> re_match PRICE_KG_RE (strip raw) \<noteq> None \<longrightarrow>
        fst (loop_body d st raw) = fst st \<and> (\<exists>w. snd (loop_body d st raw) = snd st @ [w]))
   \<and> (has_noise_prefix (strip raw) \<longrightarrow> fst (loop_body d st raw) = fst st)"
proof -
  have c1: "classify raw = SkippedBlank \<longleftrightarrow> strip raw = []"
    by (simp add: classify_def Let_def split: option.splits)
  have c2: "(\<exists>w. classify raw = WeightPrice w) \<longleftrightarrow>
        strip raw \<noteq> [] \<and> re_match PRICE_KG_RE (strip raw) \<noteq> None"
    by (simp add: classify_def Let_def split: option.splits)
  have c3: "classify raw = Noise \<longleftrightarrow>
        strip raw \<noteq> [] \<and> re_match PRICE_KG_RE (strip raw) = None \<and> has_noise_prefix (strip raw)"
    by (simp add: classify_def Let_def split: option.splits)
  have c4: "(\<exists>n q a. classify raw = Product n q a) \<longleftrightarrow>
        strip raw \<noteq> [] \<and> re_match PRICE_KG_RE (strip raw) = None \<and> \<not> has_noise_prefix (strip raw)
        \<and> re_match PRODUCT_RE (strip raw) \<noteq> None"
    by (simp add: classify_def Let_def split: option.splits)
  have c5: "classify raw = Unrecognized \<longleftrightarrow>
        strip raw \<noteq> [] \<and> re_match PRICE_KG_RE (strip raw) = None \<and> \<not> has_noise_prefix (strip raw)
        \<and> re_match PRODUCT_RE (strip raw) = None"
    by (simp add: classify_def Let_def split: option.splits)
  have c6: "strip raw \<noteq> [] \<and> re_match PRICE_KG_RE (strip raw) \<noteq> None \<longrightarrow>
        fst (loop_body d st raw) = fst st \<and> (\<exists>w. snd (loop_body d st raw) = snd st @ [w])"
    using c2 by (auto simp: loop_body_classify apply_class_def)
  have c7: "has_noise_prefix (strip raw) \<longrightarrow> fst (loop_body d st raw) = fst st"
    by (cases "classify raw")
       (auto simp: loop_body_classify apply_class_def classify_def Let_def
             split: option.splits if_splits)
  show ?thesis
    using loop_body_classify c1 c2 c3 c4 c5 c6 c7 by blast
qed

theorem classification_precedence_witness:
  "has_noise_prefix (strip (u ''total 1 x 2.00 2.00''))
   \<and> re_match PRODUCT_RE (strip (u ''total 1 x 2.00 2.00'')) \<noteq> None
   \<and> classify (u ''total 1 x 2.00 2.00'') = Noise
   \<and> loop_body None ([], [u ''w'']) (u ''total 1 x 2.00 2.00'') = ([], [u ''w''])
   \<and> re_match PRICE_KG_RE (strip (u ''0.350 kg x 12,50 '' @ [euro] @ u ''/kg'')) \<noteq> None
   \<and> fst (loop_body None ([], []) (u ''0.350 kg x 12,50 '' @ [euro] @ u ''/kg'')) = []"
proof -
  have n: "has_noise_prefix (strip (u ''total 1 x 2.00 2.00''))"
    by (simp add: run_defs class_defs)
  have p: "re_match PRODUCT_RE (strip (u ''total 1 x 2.00 2.00'')) \<noteq> None"
    by (simp add: run_defs)
  have k: "strip (u ''0.350 kg x 12,50 '' @ [euro] @ u ''/kg'') \<noteq> []
           \<and> re_match PRICE_KG_RE (strip (u ''0.350 kg x 12,50 '' @ [euro] @ u ''/kg'')) \<noteq> None"
    by (simp add: run_defs)
  have s: "strip (u ''total 1 x 2.00 2.00'') \<noteq> []
           \<and> re_match PRICE_KG_RE (strip (u ''total 1 x 2.00 2.00'')) = None"
    by (simp add: run_defs)
  note t1 = classification_precedence [of None "([], [u ''w''])" "u ''total 1 x 2.00 2.00''"]
  note t2 = classification_precedence [of None "([], [])" "u ''0.350 kg x 12,50 '' @ [euro] @ u ''/kg''"]
  have a: "classify (u ''total 1 x 2.00 2.00'') = Noise"
    using t1 n s by blast
  have b: "loop_body None ([], [u ''w'']) (u ''total 1 x 2.00 2.00'') = ([], [u ''w''])"
    using t1 a by (simp add: apply_class_def)
  have "fst (loop_body None ([], []) (u ''0.350 kg x 12,50 '' @ [euro] @ u ''/kg''))
          = fst (([], []) :: product_row list \<times> ustr list)"
    using t2 k by blast
  then have c: "fst (loop_body None ([], []) (u ''0.350 kg x 12,50 '' @ [euro] @ u ''/kg'')) = []"
    by (simp only: fst_conv)
  show ?thesis using n p a b c k by blast
qed

text \<open>
  C3 (amended). A line that reaches the product test and whose cleaned name begins
  with \<open>"remise"\<close>, in any letter case, adds no record; and no row that
  \<open>parse_lines_to_rows\<close> returns has a name that begins with \<open>"remise"\<close>. (Nothing is
  said of names that begin with \<open>"discount"\<close>.)
\<close>

theorem remise_never_a_row:
  "(classify raw = Product n q a \<longrightarrow> is_remise n \<longrightarrow> fst (loop_body d st raw) = fst st)
   \<and> (\<forall>r\<in>set (parse_lines_to_rows ls d). \<not> startswith (lower (r_name r)) (u ''remise''))"
proof -
  have a: "classify raw = Product n q a \<longrightarrow> is_remise n \<longrightarrow> fst (loop_body d st raw) = fst st"
    by (simp add: loop_body_classify apply_class_def)
  have "\<forall>r\<in>set (fst (foldl (loop_body d) ([], []) ls)). \<not> is_remise (r_name r)"
    by (rule foldl_body_out_inv) (simp_all add: mk_row_def)
  then have b: "\<forall>r\<in>set (parse_lines_to_rows ls d). \<not> startswith (lower (r_name r)) (u ''remise'')"
    by (simp add: parse_lines_to_rows_def is_remise_def)
  show ?thesis using a b by blast
qed

theorem remise_never_a_row_witness:
  "classify (u ''Remise fid'' @ [e_acute] @ u ''lit'' @ [e_acute] @ u '' 1 x 2.00 -2.00'') =
     Product (u ''Remise fid'' @ [e_acute] @ u ''lit'' @ [e_acute]) (u ''1 x 2.00'') (u ''-2.00'')
   \<and> is_remise (u ''Remise fid'' @ [e_acute] @ u ''lit'' @ [e_acute])
   \<and> fst (loop_body None ([], [u ''w''])
        (u ''Remise fid'' @ [e_acute] @ u ''lit'' @ [e_acute] @ u '' 1 x 2.00 -2.00'')) = []
   \<and> parse_lines_to_rows
        [u ''POMME 1 x 2.00 2.00'',
         u ''Remise fid'' @ [e_acute] @ u ''lit'' @ [e_acute] @ u '' 1 x 2.00 -2.00''] None =
      [\<lparr>r_name = u ''POMME'', r_type = [], r_pricekg = [], r_qte_pu = u ''1 x 2.00'',
        r_amount = u ''2.00'', r_date = []\<rparr>]"
proof -
  have c: "classify (u ''Remise fid'' @ [e_acute] @ u ''lit'' @ [e_acute] @ u '' 1 x 2.00 -2.00'') =
     Product (u ''Remise fid'' @ [e_acute] @ u ''lit'' @ [e_acute]) (u ''1 x 2.00'') (u ''-2.00'')"
    by (simp add: run_defs class_defs)
  have r: "is_remise (u ''Remise fid'' @ [e_acute] @ u ''lit'' @ [e_acute])"
    by (simp add: run_defs class_defs)
  have "fst (loop_body None ([], [u ''w''])
        (u ''Remise fid'' @ [e_acute] @ u ''lit'' @ [e_acute] @ u '' 1 x 2.00 -2.00''))
        = fst (([], [u ''w'']) :: product_row list \<times> ustr list)"
    using c r remise_never_a_row
      [of "u ''Remise fid'' @ [e_acute] @ u ''lit'' @ [e_acute] @ u '' 1 x 2.00 -2.00''"
          "u ''Remise fid'' @ [e_acute] @ u ''lit'' @ [e_acute]" "u ''1 x 2.00''" "u ''-2.00''"
          None "([], [u ''w''])" "[]"]
    by blast
  then have s: "fst (loop_body None ([], [u ''w''])
        (u ''Remise fid'' @ [e_acute] @ u ''lit'' @ [e_acute] @ u '' 1 x 2.00 -2.00'')) = []"
    by (simp only: fst_conv)
  have p: "parse_lines_to_rows
        [u ''POMME 1 x 2.00 2.00'',
         u ''Remise fid'' @ [e_acute] @ u ''lit'' @ [e_acute] @ u '' 1 x 2.00 -2.00''] None =
      [\<lparr>r_name = u ''POMME'', r_type = [], r_pricekg = [], r_qte_pu = u ''1 x 2.00'',
        r_amount = u ''2.00'', r_date = []\<rparr>]"
    by (simp add: run_defs)
  show ?thesis using c r s p by blast
qed

text \<open>
  C3 as stated fails for \<open>"discount"\<close>: the line \<open>"Discount carte 1 x 2.00 -2.00"\<close> has
  a cleaned name that begins with \<open>"discount"\<close>, and it gives a row.
\<close>

theorem discount_line_gives_row:
  "classify (u ''Discount carte 1 x 2.00 -2.00'') =
     Product (u ''Discount carte'') (u ''1 x 2.00'') (u ''-2.00'')
   \<and> startswith (lower (u ''Discount carte'')) (u ''discount'')
   \<and> parse_lines_to_rows [u ''Discount carte 1 x 2.00 -2.00''] None =
      [\<lparr>r_name = u ''Discount carte'', r_type = [], r_pricekg = [], r_qte_pu = u ''1 x 2.00'',
        r_amount = u ''-2.00'', r_date = []\<rparr>]"
  by (simp add: run_defs class_defs)

text \<open>
  C5 (amended). A line that reaches the product test (it is not blank, is no
  weight-price line and has no noise prefix) and matches the product pattern takes the
  front of a non-empty queue off it, whatever its name. If the cleaned name begins with
  \<open>"remise"\<close> no record is added, and the rest of the document is processed from the
  records as they were and the queue without its front: the value taken is on no record.
  Otherwise the value taken is the weight-price of the record of this line.
\<close>

theorem product_line_dequeues:
  assumes "classify raw = Product n q a"
  shows "snd (loop_body d (out, p # ps) raw) = ps
   \<and> (is_remise n \<longrightarrow>
        loop_body d (out, p # ps) raw = (out, ps)
        \<and> foldl (loop_body d) (out, p # ps) (raw # rest) = foldl (loop_body d) (out, ps) rest)
   \<and> (\<not> is_remise n \<longrightarrow> fst (loop_body d (out, p # ps) raw) = out @ [mk_row n p q a d])"
  using assms by (simp add: product_step front_def)

theorem product_line_dequeues_witness:
  "classify (u ''Remise fid'' @ [e_acute] @ u ''lit'' @ [e_acute] @ u '' 1 x 2.00 -2.00'') =
     Product (u ''Remise fid'' @ [e_acute] @ u ''lit'' @ [e_acute]) (u ''1 x 2.00'') (u ''-2.00'')
   \<and> is_remise (u ''Remise fid'' @ [e_acute] @ u ''lit'' @ [e_acute])
   \<and> loop_body None ([], [u ''w1'', u ''w2''])
        (u ''Remise fid'' @ [e_acute] @ u ''lit'' @ [e_acute] @ u '' 1 x 2.00 -2.00'') = ([], [u ''w2''])
   \<and> foldl (loop_body None) ([], [u ''w1'', u ''w2''])
        [u ''Remise fid'' @ [e_acute] @ u ''lit'' @ [e_acute] @ u '' 1 x 2.00 -2.00'',
         u ''POMME 1 x 2.00 2.00''] =
      foldl (loop_body None) ([], [u ''w2'']) [u ''POMME 1 x 2.00 2.00'']"
proof -
  have c: "classify (u ''Remise fid'' @ [e_acute] @ u ''lit'' @ [e_acute] @ u '' 1 x 2.00 -2.00'') =
     Product (u ''Remise fid'' @ [e_acute] @ u ''lit'' @ [e_acute]) (u ''1 x 2.00'') (u ''-2.00'')"
    by (simp add: run_defs class_defs)
  have r: "is_remise (u ''Remise fid'' @ [e_acute] @ u ''lit'' @ [e_acute])"
    by (simp add: run_defs class_defs)
  show ?thesis
    using c r product_line_dequeues [OF c, of None "[]" "u ''w1''" "[u ''w2'']" "[u ''POMME 1 x 2.00 2.00'']"]
    by blast
qed

text \<open>
  C5 as stated fails for a line with a noise prefix. The line
  \<open>"Remise immediate 1 x 2.00 -2.00"\<close>, written with an e-acute after \<open>imm\<close>, matches
  the product pattern and its cleaned name begins with \<open>"remise"\<close>, but the noise test
  comes first: nothing is taken off the queue, and the pending value is on the record
  of the next product line.
\<close>

theorem noise_remise_keeps_queue:
  "re_match PRODUCT_RE (strip (u ''Remise imm'' @ e_acute # u ''diate 1 x 2.00 -2.00'')) =
     Some ([], [(''amount'', u ''-2.00''), (''unit'', u ''2.00''), (''qty'', u ''1''),
                (''name'', u ''Remise imm'' @ e_acute # u ''diate'')])
   \<and> is_remise (clean_name (u ''Remise imm'' @ e_acute # u ''diate''))
   \<and> loop_body None ([], [u ''w'']) (u ''Remise imm'' @ e_acute # u ''diate 1 x 2.00 -2.00'') =
       ([], [u ''w''])
   \<and> foldl (loop_body None) ([], [u ''w''])
        [u ''Remise imm'' @ e_acute # u ''diate 1 x 2.00 -2.00'', u ''POMME 1 x 2.00 2.00''] =
       ([\<lparr>r_name = u ''POMME'', r_type = [], r_pricekg = u ''w'', r_qte_pu = u ''1 x 2.00'',
          r_amount = u ''2.00'', r_date = []\<rparr>], [])"
  by (simp add: run_defs class_defs)

text \<open>
  C4. The queue is first in, first out. Over lines \<open>ys\<close> none of which is a product
  line, the records stay as they are and the weight-prices of \<open>ys\<close> join the back of
  the queue in their order; a product line \<open>P\<close> after them is given the front of that
  queue (the oldest pending value, the empty string when there is none) and leaves the
  rest in order. So a weight-price line \<open>W\<close> met with an empty queue pairs with the
  first product line after it, whatever weight-price lines stand between them. And a
  weight-price line with no product line after it adds no record: the rows are those
  of the document without that line.
\<close>

theorem pending_fifo:
  assumes "\<forall>y\<in>set ys. \<not> is_product (classify y)"
  shows "foldl (loop_body d) (out, q) ys = (out, q @ enqueued ys)
   \<and> (classify P = Product n qa a \<longrightarrow>
        foldl (loop_body d) (out, q) (ys @ [P]) =
          (if is_remise n then out else out @ [mk_row n (front (q @ enqueued ys)) qa a d],
           tl (q @ enqueued ys)))
   \<and> (classify W = WeightPrice w \<longrightarrow> classify P = Product n qa a \<longrightarrow>
        parse_lines_to_rows (W # ys @ [P]) d = (if is_remise n then [] else [mk_row n w qa a d]))
   \<and> (classify W = WeightPrice w \<longrightarrow>
        parse_lines_to_rows (xs @ W # ys) d = parse_lines_to_rows xs d
        \<and> parse_lines_to_rows (xs @ W # ys) d = parse_lines_to_rows (xs @ ys) d)"
proof -
  have a: "foldl (loop_body d) (out, q) ys = (out, q @ enqueued ys)" for out q
    using assms by (rule foldl_no_product)
  have b: "foldl (loop_body d) (out, q) (ys @ [P]) =
          (if is_remise n then out else out @ [mk_row n (front (q @ enqueued ys)) qa a d],
           tl (q @ enqueued ys))" if "classify P = Product n qa a" for out q
    using that by (simp add: a product_step)
  have c: "parse_lines_to_rows (W # ys @ [P]) d = (if is_remise n then [] else [mk_row n w qa a d])"
    if w: "classify W = WeightPrice w" and p: "classify P = Product n qa a"
  proof -
    have "loop_body d ([], []) W = ([], [w])"
      using w by (simp add: loop_body_classify apply_class_def)
    then show ?thesis
      using b [OF p, of "[]" "[w]"] by (simp add: parse_lines_to_rows_def front_def)
  qed
  have e: "fst (foldl (loop_body d) st (W # ys)) = fst st" if w: "classify W = WeightPrice w" for st
  proof -
    have "loop_body d st W = (fst st, snd st @ [w])"
      using w by (simp add: loop_body_classify apply_class_def)
    then show ?thesis by (simp add: a)
  qed
  have f: "fst (foldl (loop_body d) st ys) = fst st" for st
    using a [of "fst st" "snd st"] by simp
  have g: "parse_lines_to_rows (xs @ W # ys) d = parse_lines_to_rows xs d
        \<and> parse_lines_to_rows (xs @ W # ys) d = parse_lines_to_rows (xs @ ys) d"
    if w: "classify W = WeightPrice w"
    using e [OF w] f by (simp add: parse_lines_to_rows_def)
  show ?thesis using a b c g by blast
qed

theorem pending_fifo_witness:
  "classify (u ''0.350 kg x 12,50 '' @ euro # u ''/kg'') =
     WeightPrice (u ''0.350kg x 12.50'' @ euro # u ''/kg'')
   \<and> classify (u ''1.2 kg x 3,00 '' @ euro # u ''/kg'') =
     WeightPrice (u ''1.2kg x 3.00'' @ euro # u ''/kg'')
   \<and> classify (u ''POMME 1 x 2.00 2.00'') = Product (u ''POMME'') (u ''1 x 2.00'') (u ''2.00'')
   \<and> parse_lines_to_rows
        [u ''0.350 kg x 12,50 '' @ euro # u ''/kg'', u ''1.2 kg x 3,00 '' @ euro # u ''/kg'',
         u ''POMME 1 x 2.00 2.00''] None =
      [mk_row (u ''POMME'') (u ''0.350kg x 12.50'' @ euro # u ''/kg'') (u ''1 x 2.00'') (u ''2.00'') None]
   \<and> parse_lines_to_rows
        [u ''POMME 1 x 2.00 2.00'', u ''0.350 kg x 12,50 '' @ euro # u ''/kg'',
         u ''1.2 kg x 3,00 '' @ euro # u ''/kg''] None =
      parse_lines_to_rows [u ''POMME 1 x 2.00 2.00''] None"
proof -
  let ?W = "u ''0.350 kg x 12,50 '' @ euro # u ''/kg''"
  let ?V = "u ''1.2 kg x 3,00 '' @ euro # u ''/kg''"
  let ?P = "u ''POMME 1 x 2.00 2.00''"
  have w: "classify ?W = WeightPrice (u ''0.350kg x 12.50'' @ euro # u ''/kg'')"
    by (simp add: run_defs class_defs)
  have v: "classify ?V = WeightPrice (u ''1.2kg x 3.00'' @ euro # u ''/kg'')"
    by (simp add: run_defs class_defs)
  have p: "classify ?P = Product (u ''POMME'') (u ''1 x 2.00'') (u ''2.00'')"
    by (simp add: run_defs class_defs)
  have nr: "\<not> is_remise (u ''POMME'')"
    by (simp add: run_defs class_defs)
  have h: "\<forall>y\<in>set [?V]. \<not> is_product (classify y)"
    by (simp add: v is_product_def)
  have r1: "parse_lines_to_rows (?W # [?V] @ [?P]) None =
      [mk_row (u ''POMME'') (u ''0.350kg x 12.50'' @ euro # u ''/kg'') (u ''1 x 2.00'') (u ''2.00'') None]"
    using pending_fifo [OF h, of None _ _ ?P "u ''POMME''" "u ''1 x 2.00''" "u ''2.00''" ?W
        "u ''0.350kg x 12.50'' @ euro # u ''/kg''"] w p nr
    by presburger
  have r2: "parse_lines_to_rows ([?P] @ ?W # [?V]) None = parse_lines_to_rows [?P] None"
    using pending_fifo [OF h, of None _ _ _ _ _ _ ?W "u ''0.350kg x 12.50'' @ euro # u ''/kg''" "[?P]"] w
    by blast
  show ?thesis using w v p r1 r2 by simp
qed

text \<open>
  C9. When no date pattern matches anywhere in the text of a document, \<open>find_date\<close>
  returns \<open>None\<close> and raises nothing, \<open>extract_pdf_to_rows\<close> returns the rows of
  \<open>parse_lines_to_rows\<close> for no date, and every such row has the empty date.
\<close>

theorem no_date_is_empty_date:
  assumes "\<forall>rx\<in>set DATE_RES. re_search rx (join_nl page_texts) = None"
  shows "find_date (join_nl page_texts) = Inr None
   \<and> extract_pdf_to_rows page_texts =
       Inr (parse_lines_to_rows (split_nl (join_nl page_texts)) None)
   \<and> (\<forall>r\<in>set (parse_lines_to_rows (split_nl (join_nl page_texts)) None). r_date r = [])"
proof -
  have f: "find_date (join_nl page_texts) = Inr None"
    using assms by (simp add: find_date_def find_date_loop_none)
  then have e: "extract_pdf_to_rows page_texts =
       Inr (parse_lines_to_rows (split_nl (join_nl page_texts)) None)"
    by (simp add: extract_pdf_to_rows_def)
  show ?thesis using f e rows_without_date by blast
qed

theorem no_date_is_empty_date_witness:
  "find_date (join_nl [u ''CARREFOUR'', u ''POMME 1 x 2.00 2.00'']) = Inr None
   \<and> extract_pdf_to_rows [u ''CARREFOUR'', u ''POMME 1 x 2.00 2.00''] =
       Inr [\<lparr>r_name = u ''POMME'', r_type = [], r_pricekg = [], r_qte_pu = u ''1 x 2.00'',
              r_amount = u ''2.00'', r_date = []\<rparr>]"
proof -
  have h: "\<forall>rx\<in>set DATE_RES. re_search rx (join_nl [u ''CARREFOUR'', u ''POMME 1 x 2.00 2.00'']) = None"
    by (simp add: run_defs)
  have p: "parse_lines_to_rows (split_nl (join_nl [u ''CARREFOUR'', u ''POMME 1 x 2.00 2.00''])) None =
       [\<lparr>r_name = u ''POMME'', r_type = [], r_pricekg = [], r_qte_pu = u ''1 x 2.00'',
              r_amount = u ''2.00'', r_date = []\<rparr>]"
    by (simp add: run_defs)
  show ?thesis
    using no_date_is_empty_date [OF h] p by simp
qed

text \<open>
  C6 (amended). \<open>find_date\<close> takes the patterns in the order of the list: a match of the
  slash pattern anywhere in the text decides, and the dot pattern decides only when the
  slash pattern matches nowhere; where in the text the matches stand plays no part. A
  year below 100 is promoted by 2000. So a text that holds \<open>"12.05.24 14:32"\<close>, with no
  match of the slash pattern and no match of the dot pattern that starts before it,
  gives \<open>"12/05/2024"\<close>; and a text with a dot date before a slash date gives the
  slash date.
\<close>

theorem find_date_priority:
  "(re_search DATE_RE_SLASH t = Some m \<longrightarrow> find_date t = date_of_match m)
   \<and> (re_search DATE_RE_SLASH t = None \<longrightarrow> re_search DATE_RE_DOT t = Some m \<longrightarrow>
        find_date t = date_of_match m)
   \<and> (int_of_digits (group m ''y'') < 100 \<longrightarrow>
        date_of_match m =
          (case datetime_new (int_of_digits (group m ''y'') + 2000) (int_of_digits (group m ''m''))
                  (int_of_digits (group m ''d'')) (int_of_digits (group m ''h''))
                  (int_of_digits (group m ''min'')) of
             Inl e \<Rightarrow> Inl e
           | Inr dt \<Rightarrow> Inr (Some (strftime_dmY dt))))
   \<and> DATE_RES = [DATE_RE_SLASH, DATE_RE_DOT]
   \<and> (re_search DATE_RE_SLASH (pre @ u ''12.05.24 14:32'' @ post) = None \<longrightarrow>
        (\<forall>i<length pre. match_at DATE_RE_DOT (length (pre @ u ''12.05.24 14:32'' @ post))
             (drop i (pre @ u ''12.05.24 14:32'' @ post)) = None) \<longrightarrow>
        find_date (pre @ u ''12.05.24 14:32'' @ post) = Inr (Some (u ''12/05/2024'')))
   \<and> find_date (u ''12.05.24 14:32'') = Inr (Some (u ''12/05/2024''))
   \<and> find_date (u ''12.05.24 14:32 puis 13/06/2025 09h15'') = Inr (Some (u ''13/06/2025''))"
proof -
  have a: "re_search DATE_RE_SLASH t = Some m \<longrightarrow> find_date t = date_of_match m"
    by (simp add: find_date_cases)
  have b: "re_search DATE_RE_SLASH t = None \<longrightarrow> re_search DATE_RE_DOT t = Some m \<longrightarrow>
        find_date t = date_of_match m"
    by (simp add: find_date_cases)
  have c: "int_of_digits (group m ''y'') < 100 \<longrightarrow>
        date_of_match m =
          (case datetime_new (int_of_digits (group m ''y'') + 2000) (int_of_digits (group m ''m''))
                  (int_of_digits (group m ''d'')) (int_of_digits (group m ''h''))
                  (int_of_digits (group m ''min'')) of
             Inl e \<Rightarrow> Inl e
           | Inr dt \<Rightarrow> Inr (Some (strftime_dmY dt)))"
    by (simp add: date_of_match_def Let_def)
  have d: "find_date (u ''12.05.24 14:32'') = Inr (Some (u ''12/05/2024''))"
    by (simp add: run_defs)
  have g: "re_search DATE_RE_SLASH (pre @ u ''12.05.24 14:32'' @ post) = None \<longrightarrow>
        (\<forall>i<length pre. match_at DATE_RE_DOT (length (pre @ u ''12.05.24 14:32'' @ post))
             (drop i (pre @ u ''12.05.24 14:32'' @ post)) = None) \<longrightarrow>
        find_date (pre @ u ''12.05.24 14:32'' @ post) = Inr (Some (u ''12/05/2024''))"
  proof (intro impI)
    let ?t = "pre @ u ''12.05.24 14:32'' @ post"
    let ?m = "(post, [(''min'', u ''32''), (''h'', u ''14''), (''y'', u ''24''), (''m'', u ''05''),
                (''d'', u ''12'')]) :: match_obj"
    assume s: "re_search DATE_RE_SLASH ?t = None"
      and n: "\<forall>i<length pre. match_at DATE_RE_DOT (length ?t) (drop i ?t) = None"
    have "search_from DATE_RE_DOT (length ?t) ?t =
          search_from DATE_RE_DOT (length ?t) (u ''12.05.24 14:32'' @ post)"
      using n by (rule search_from_skip)
    also have "\<dots> = Some ?m"
      using dot_match_here [of "length ?t" post] by (simp add: u_def)
    finally have "re_search DATE_RE_DOT ?t = Some ?m"
      by (simp add: re_search_def)
    moreover have "date_of_match ?m = Inr (Some (u ''12/05/2024''))"
      by (simp add: run_defs)
    ultimately show "find_date ?t = Inr (Some (u ''12/05/2024''))"
      using s by (simp add: find_date_cases)
  qed
  have e: "find_date (u ''12.05.24 14:32 puis 13/06/2025 09h15'') = Inr (Some (u ''13/06/2025''))"
    by (simp add: run_defs)
  show ?thesis using a b c d e g DATE_RES_def by blast
qed

theorem find_date_priority_witness:
  "re_search DATE_RE_SLASH (u ''12.05.24 14:32'') = None
   \<and> re_search DATE_RE_DOT (u ''12.05.24 14:32'') =
       Some ([], [(''min'', u ''32''), (''h'', u ''14''), (''y'', u ''24''), (''m'', u ''05''), (''d'', u ''12'')])
   \<and> int_of_digits (group ([], [(''min'', u ''32''), (''h'', u ''14''), (''y'', u ''24''),
          (''m'', u ''05''), (''d'', u ''12'')]) ''y'') = 24
   \<and> find_date (u ''12.05.24 14:32'') =
       date_of_match ([], [(''min'', u ''32''), (''h'', u ''14''), (''y'', u ''24''), (''m'', u ''05''), (''d'', u ''12'')])
   \<and> date_of_match ([], [(''min'', u ''32''), (''h'', u ''14''), (''y'', u ''24''), (''m'', u ''05''), (''d'', u ''12'')])
       = Inr (Some (u ''12/05/2024''))
   \<and> re_search DATE_RE_SLASH (u ''Le '' @ u ''12.05.24 14:32'' @ u '' merci'') = None
   \<and> find_date (u ''Le '' @ u ''12.05.24 14:32'' @ u '' merci'') = Inr (Some (u ''12/05/2024''))
   \<and> re_search DATE_RE_SLASH (u ''12.05.24 14:32 puis 13/06/2025 09h15'') =
       Some ([], [(''min'', u ''15''), (''h'', u ''09''), (''y'', u ''2025''), (''m'', u ''06''), (''d'', u ''13'')])
   \<and> find_date (u ''12.05.24 14:32 puis 13/06/2025 09h15'') =
       date_of_match ([], [(''min'', u ''15''), (''h'', u ''09''), (''y'', u ''2025''), (''m'', u ''06''), (''d'', u ''13'')])"
proof -
  let ?m = "([], [(''min'', u ''32''), (''h'', u ''14''), (''y'', u ''24''), (''m'', u ''05''), (''d'', u ''12'')]) :: match_obj"
  let ?m2 = "([], [(''min'', u ''15''), (''h'', u ''09''), (''y'', u ''2025''), (''m'', u ''06''), (''d'', u ''13'')]) :: match_obj"
  have s: "re_search DATE_RE_SLASH (u ''12.05.24 14:32'') = None"
    by (simp add: run_defs)
  have d: "re_search DATE_RE_DOT (u ''12.05.24 14:32'') = Some ?m"
    by (simp add: run_defs)
  have y: "int_of_digits (group ?m ''y'') = 24"
    by (simp add: run_defs)
  have s2: "re_search DATE_RE_SLASH (u ''12.05.24 14:32 puis 13/06/2025 09h15'') = Some ?m2"
    by (simp add: run_defs)
  have v: "date_of_match ?m = Inr (Some (u ''12/05/2024''))"
    by (simp add: run_defs)
  have f1: "find_date (u ''12.05.24 14:32'') = date_of_match ?m"
    using find_date_priority [of "u ''12.05.24 14:32''" ?m] s d by blast
  have s3: "re_search DATE_RE_SLASH (u ''Le '' @ u ''12.05.24 14:32'' @ u '' merci'') = None"
    by (simp add: run_defs)
  have n3: "\<forall>i<length (u ''Le ''). match_at DATE_RE_DOT
              (length (u ''Le '' @ u ''12.05.24 14:32'' @ u '' merci''))
              (drop i (u ''Le '' @ u ''12.05.24 14:32'' @ u '' merci'')) = None"
    by (simp add: run_defs All_less_Suc)
  have f3: "find_date (u ''Le '' @ u ''12.05.24 14:32'' @ u '' merci'') = Inr (Some (u ''12/05/2024''))"
    using find_date_priority [of _ _ "u ''Le ''" "u '' merci''"] s3 n3 by blast
  have f2: "find_date (u ''12.05.24 14:32 puis 13/06/2025 09h15'') = date_of_match ?m2"
    using find_date_priority [of "u ''12.05.24 14:32 puis 13/06/2025 09h15''" ?m2] s2 by blast
  show ?thesis using s d y s2 v f1 f2 s3 f3 by blast
qed

text \<open>
  C6 as stated fails in its example: the text \<open>"01.01.23 10:00 puis 12.05.24 14:32"\<close>
  holds \<open>"12.05.24 14:32"\<close> and no slash date, and gives \<open>"01/01/2023"\<close>, the leftmost
  match of the dot pattern.
\<close>

theorem earlier_dot_date_wins:
  "re_search DATE_RE_SLASH (u ''01.01.23 10:00 puis '' @ u ''12.05.24 14:32'' @ []) = None
   \<and> find_date (u ''01.01.23 10:00 puis '' @ u ''12.05.24 14:32'' @ []) = Inr (Some (u ''01/01/2023''))
   \<and> u ''01/01/2023'' \<noteq> u ''12/05/2024''"
  by (simp add: run_defs)

text \<open>
  C2 (amended). When the match that \<open>find_date\<close> selects (the leftmost match of the
  first pattern of the list that matches) denotes a date or time out of range, so that
  \<open>datetime\<close> raises, \<open>find_date\<close> fails with \<open>InvalidDate\<close>, and so does
  \<open>extract_pdf_to_rows\<close> for a document with that text: the failure reaches the caller
  before any line is parsed. The document adds no row to the batch, and the documents
  before and after it add theirs.
\<close>

theorem invalid_date_propagates:
  assumes "re_search DATE_RE_SLASH t = Some m
           \<or> (re_search DATE_RE_SLASH t = None \<and> re_search DATE_RE_DOT t = Some m)"
    and "date_of_match m = Inl e"
  shows "find_date t = Inl InvalidDate
   \<and> (join_nl page_texts = t \<longrightarrow>
        extract_pdf_to_rows page_texts = Inl InvalidDate
        \<and> extract_invoices_rows (before @ page_texts # after) =
            extract_invoices_rows before @ extract_invoices_rows after)"
proof -
  have "find_date t = date_of_match m"
    using assms(1) by (auto simp: find_date_cases)
  then have f: "find_date t = Inl InvalidDate"
    using assms(2) date_of_match_error by simp
  have "extract_pdf_to_rows page_texts = Inl InvalidDate" if "join_nl page_texts = t"
    using that f by (simp add: extract_pdf_to_rows_def)
  then show ?thesis
    using f by (simp add: extract_invoices_rows_append)
qed

theorem invalid_date_propagates_witness:
  "re_search DATE_RE_SLASH (u ''32/01/2024 10:00'' @ 10 # u ''POMME 1 x 2.00 2.00'') =
     Some (10 # u ''POMME 1 x 2.00 2.00'',
           [(''min'', u ''00''), (''h'', u ''10''), (''y'', u ''2024''), (''m'', u ''01''), (''d'', u ''32'')])
   \<and> date_of_match (10 # u ''POMME 1 x 2.00 2.00'',
           [(''min'', u ''00''), (''h'', u ''10''), (''y'', u ''2024''), (''m'', u ''01''), (''d'', u ''32'')])
       = Inl InvalidDate
   \<and> find_date (u ''32/01/2024 10:00'' @ 10 # u ''POMME 1 x 2.00 2.00'') = Inl InvalidDate
   \<and> extract_pdf_to_rows [u ''32/01/2024 10:00'', u ''POMME 1 x 2.00 2.00''] = Inl InvalidDate
   \<and> extract_invoices_rows
        ([[u ''POIRE 1 x 3.00 3.00'']] @ [u ''32/01/2024 10:00'', u ''POMME 1 x 2.00 2.00''] # []) =
       extract_invoices_rows [[u ''POIRE 1 x 3.00 3.00'']] @ extract_invoices_rows []"
proof -
  let ?t = "u ''32/01/2024 10:00'' @ 10 # u ''POMME 1 x 2.00 2.00''"
  let ?m = "(10 # u ''POMME 1 x 2.00 2.00'',
           [(''min'', u ''00''), (''h'', u ''10''), (''y'', u ''2024''), (''m'', u ''01''), (''d'', u ''32'')])
           :: match_obj"
  have s: "re_search DATE_RE_SLASH ?t = Some ?m"
    by (simp add: run_defs)
  have d: "date_of_match ?m = Inl InvalidDate"
    by (simp add: run_defs)
  have j: "join_nl [u ''32/01/2024 10:00'', u ''POMME 1 x 2.00 2.00''] = ?t"
    by simp
  have h: "re_search DATE_RE_SLASH ?t = Some ?m
           \<or> (re_search DATE_RE_SLASH ?t = None \<and> re_search DATE_RE_DOT ?t = Some ?m)"
    using s by blast
  show ?thesis
    using invalid_date_propagates [OF h d, of "[u ''32/01/2024 10:00'', u ''POMME 1 x 2.00 2.00'']"
        "[[u ''POIRE 1 x 3.00 3.00'']]" "[]"] s d j
    by blast
qed

text \<open>
  C2 as stated fails. The document of the two lines \<open>"32/01/2024 10:00"\<close> and
  \<open>"POMME 1 x 2.00 2.00"\<close> has a product line, which \<open>parse_lines_to_rows\<close> turns into
  a row; but \<open>extract_pdf_to_rows\<close> fails on the date and the batch has no row of
  this document.
\<close>

theorem invalid_date_drops_rows:
  "extract_pdf_to_rows [u ''32/01/2024 10:00'', u ''POMME 1 x 2.00 2.00''] = Inl InvalidDate
   \<and> extract_invoices_rows [[u ''32/01/2024 10:00'', u ''POMME 1 x 2.00 2.00'']] = []
   \<and> parse_lines_to_rows (split_nl (join_nl [u ''32/01/2024 10:00'', u ''POMME 1 x 2.00 2.00''])) None =
       [\<lparr>r_name = u ''POMME'', r_type = [], r_pricekg = [], r_qte_pu = u ''1 x 2.00'',
          r_amount = u ''2.00'', r_date = []\<rparr>]"
proof -
  have e: "extract_pdf_to_rows [u ''32/01/2024 10:00'', u ''POMME 1 x 2.00 2.00''] = Inl InvalidDate"
    by (simp add: run_defs)
  have p: "parse_lines_to_rows (split_nl (join_nl [u ''32/01/2024 10:00'', u ''POMME 1 x 2.00 2.00''])) None =
       [\<lparr>r_name = u ''POMME'', r_type = [], r_pricekg = [], r_qte_pu = u ''1 x 2.00'',
          r_amount = u ''2.00'', r_date = []\<rparr>]"
    by (simp add: run_defs)
  show ?thesis using e p by simp
qed

section \<open>The claims on the merge utility\<close>

lemma merge_loop_started:
  "fh \<noteq> [] \<Longrightarrow>
   merge_loop files fh rows =
     (if list_ex (\<lambda>g. set (header g) \<noteq> set fh) (with_header files) then Inl SchemaMismatch
      else Inr (fh, rows @ concat (map (\<lambda>g. map (reorder fh) (rows_dicts g)) (with_header files))))"
  by (induction files arbitrary: rows) (simp_all add: with_header_def)

lemma merge_loop_fresh:
  "merge_loop files [] rows =
     (case with_header files of
        [] \<Rightarrow> Inr ([], rows)
      | f # fs \<Rightarrow>
          if list_ex (\<lambda>g. set (header g) \<noteq> set (header f)) fs then Inl SchemaMismatch
          else Inr (header f, rows @ concat (map (\<lambda>g. map (reorder (header f)) (rows_dicts g)) (f # fs))))"
proof (induction files)
  case Nil
  then show ?case by (simp add: with_header_def)
next
  case (Cons p ps)
  show ?case
  proof (cases "header p = []")
    case True
    then show ?thesis using Cons by (simp add: with_header_def)
  next
    case False
    then show ?thesis
      using merge_loop_started [OF False, of ps] by (simp add: with_header_def)
  qed
qed

lemma merge_loop_result:
  "merge_loop files [] [] =
     (if columns_mismatch files then Inl SchemaMismatch
      else Inr (first_header_of files,
                concat (map (\<lambda>g. map (reorder (first_header_of files)) (rows_dicts g)) (with_header files))))"
  by (simp add: merge_loop_fresh columns_mismatch_def first_header_of_def split: list.splits)


lemma merge_failure_keeps_out:
  "fst (merge_csv_folder folder dedupe sort_by out) = Inl e \<Longrightarrow>
   snd (merge_csv_folder folder dedupe sort_by out) = out"
  by (auto simp: merge_csv_folder_def Let_def split: option.splits sum.splits if_splits prod.splits)

text \<open>
  C8 (amended). For a folder with at least one matching file: \<open>merge_csv_folder\<close> fails
  with \<open>SchemaMismatch\<close> exactly when a file with a header has a set of columns other
  than that of the first file with a header (files without a header are passed over);
  when there is no such file, it fails with \<open>MissingColumn\<close> if a non-empty sort column
  is asked for that is not in that first header. Whenever it fails, the output file is
  as it was before the call.
\<close>

theorem merge_failures:
  assumes "files \<noteq> []"
  shows "(columns_mismatch files \<longrightarrow>
          merge_csv_folder (Some files) dedupe sort_by out = (Inl SchemaMismatch, out))
   \<and> (fst (merge_csv_folder (Some files) dedupe sort_by out) = Inl SchemaMismatch \<longrightarrow>
          columns_mismatch files)
   \<and> (\<not> columns_mismatch files \<longrightarrow> sort_by = Some c \<longrightarrow> c \<noteq> [] \<longrightarrow>
          c \<notin> set (first_header_of files) \<longrightarrow>
          merge_csv_folder (Some files) dedupe sort_by out = (Inl MissingColumn, out))
   \<and> (\<forall>e. fst (merge_csv_folder (Some files) dedupe sort_by out) = Inl e \<longrightarrow>
          snd (merge_csv_folder (Some files) dedupe sort_by out) = out)"
proof -
  have a: "columns_mismatch files \<longrightarrow>
          merge_csv_folder (Some files) dedupe sort_by out = (Inl SchemaMismatch, out)"
    using assms by (simp add: merge_csv_folder_def merge_loop_result)
  have b: "fst (merge_csv_folder (Some files) dedupe sort_by out) = Inl SchemaMismatch \<longrightarrow>
          columns_mismatch files"
    using assms
    by (auto simp: merge_csv_folder_def merge_loop_result Let_def sort_rows_def
             split: if_splits sum.splits option.splits)
  have c: "\<not> columns_mismatch files \<longrightarrow> sort_by = Some c \<longrightarrow> c \<noteq> [] \<longrightarrow>
          c \<notin> set (first_header_of files) \<longrightarrow>
          merge_csv_folder (Some files) dedupe sort_by out = (Inl MissingColumn, out)"
    using assms by (simp add: merge_csv_folder_def merge_loop_result Let_def)
  have d: "\<forall>e. fst (merge_csv_folder (Some files) dedupe sort_by out) = Inl e \<longrightarrow>
          snd (merge_csv_folder (Some files) dedupe sort_by out) = out"
    using merge_failure_keeps_out by blast
  show ?thesis using a b c d by blast
qed

theorem merge_failures_witness:
  "columns_mismatch
     [\<lparr>header = [u ''a'', u ''b''], rows_dicts = []\<rparr>, \<lparr>header = [u ''a'', u ''c''], rows_dicts = []\<rparr>]
   \<and> merge_csv_folder
        (Some [\<lparr>header = [u ''a'', u ''b''], rows_dicts = []\<rparr>,
               \<lparr>header = [u ''a'', u ''c''], rows_dicts = []\<rparr>])
        False None (Some ([u ''old''], [])) = (Inl SchemaMismatch, Some ([u ''old''], []))
   \<and> \<not> columns_mismatch [\<lparr>header = [u ''a'', u ''b''], rows_dicts = []\<rparr>]
   \<and> u ''z'' \<notin> set (first_header_of [\<lparr>header = [u ''a'', u ''b''], rows_dicts = []\<rparr>])
   \<and> merge_csv_folder (Some [\<lparr>header = [u ''a'', u ''b''], rows_dicts = []\<rparr>])
        False (Some (u ''z'')) None = (Inl MissingColumn, None)"
proof -
  let ?f1 = "\<lparr>header = [u ''a'', u ''b''], rows_dicts = []\<rparr>"
  let ?f2 = "\<lparr>header = [u ''a'', u ''c''], rows_dicts = []\<rparr>"
  have "u ''c'' \<in> set [u ''a'', u ''c'']"
    by simp
  moreover have "u ''c'' \<notin> set [u ''a'', u ''b'']"
    by (simp add: u_def)
  ultimately have "set [u ''a'', u ''c''] \<noteq> set [u ''a'', u ''b'']"
    by metis
  then have m: "columns_mismatch [?f1, ?f2]"
    by (simp add: columns_mismatch_def with_header_def)
  have n: "\<not> columns_mismatch [?f1]"
    by (simp add: columns_mismatch_def with_header_def)
  have z: "u ''z'' \<notin> set (first_header_of [?f1])"
    by (simp add: first_header_of_def with_header_def u_def)
  have zn: "u ''z'' \<noteq> []"
    by (simp add: u_def)
  have ne2: "[?f1, ?f2] \<noteq> []" by simp
  have ne1: "[?f1] \<noteq> []" by simp
  have r1: "merge_csv_folder (Some [?f1, ?f2]) False None (Some ([u ''old''], [])) =
            (Inl SchemaMismatch, Some ([u ''old''], []))"
    using merge_failures [OF ne2, of False None "Some ([u ''old''], [])"] m by blast
  have r2: "merge_csv_folder (Some [?f1]) False (Some (u ''z'')) None = (Inl MissingColumn, None)"
    using merge_failures [OF ne1, of False "Some (u ''z'')" None "u ''z''"] n z zn by blast
  show ?thesis using m n z r1 r2 by blast
qed

text \<open>
  C8 as stated fails: a file without a header has the empty set of columns, which
  differs from the columns \<open>a\<close> of the other file, and the merge succeeds, whether the
  file without a header comes second or first.
\<close>

theorem headerless_file_no_mismatch:
  "set (header \<lparr>header = [], rows_dicts = []\<rparr>) \<noteq> set (header \<lparr>header = [u ''a''], rows_dicts = []\<rparr>)
   \<and> merge_csv_folder
        (Some [\<lparr>header = [u ''a''], rows_dicts = []\<rparr>, \<lparr>header = [], rows_dicts = []\<rparr>])
        False None None = (Inr (), Some ([u ''a''], []))
   \<and> merge_csv_folder
        (Some [\<lparr>header = [], rows_dicts = []\<rparr>, \<lparr>header = [u ''a''], rows_dicts = []\<rparr>])
        False None None = (Inr (), Some ([u ''a''], []))"
  by (simp add: merge_csv_folder_def u_def)



end
